theory Spec2Isabelle
  imports Complex_Main "HOL-Library.Multiset" "HOL-Library.Sublist"
begin

section \<open>Objects, references and the heap\<close>

text \<open>
  \<^verbatim>\<open>skyline.py\<close> works on three classes of objects: \<^verbatim>\<open>SphericalPolygon\<close> (from the
  geometry library \<^verbatim>\<open>polygon.py\<close>), \<^verbatim>\<open>SkyLineMember\<close> and \<^verbatim>\<open>SkyLine\<close>. Python compares
  and shares them by reference, the setters of \<^verbatim>\<open>SkyLine\<close> copy and overwrite attributes,
  and several properties below are about which objects a call may change. The model
  therefore keeps an explicit heap: a list of objects, a reference being an index into
  it. Allocation appends, so a new reference is never one that was in use.

  A \<^verbatim>\<open>SphericalPolygon\<close> object holds a polygon value of an arbitrary type \<open>'p\<close>. A
  \<^verbatim>\<open>SkyLineMember\<close> has the attributes \<^verbatim>\<open>_fname\<close>, \<^verbatim>\<open>_ext\<close>, \<^verbatim>\<open>_wcs\<close> (an opaque handle) and
  \<^verbatim>\<open>_polygon\<close>; the class offers read-only properties only, so the polygon is held by
  value. A \<^verbatim>\<open>SkyLine\<close> has \<^verbatim>\<open>_polygon\<close>, a reference that is absent until the setter has
  run, and \<^verbatim>\<open>_members\<close>, a list of references.
\<close>

type_synonym addr = nat

datatype 'p pyobj =
    SphericalPolygon 'p
  | SkyLineMember string "nat list" nat 'p
  | SkyLine "addr option" "addr list"

type_synonym 'p heap = "'p pyobj list"

text \<open>
  The exceptions in play. \<^verbatim>\<open>ValueError\<close> and \<^verbatim>\<open>AssertionError\<close> are the two classes
  that the handlers of \<^verbatim>\<open>find_max_overlap\<close> and \<^verbatim>\<open>mosaic\<close> name; \<^verbatim>\<open>AttributeError\<close> is
  what Python raises when an attribute is read from an object that does not have it,
  and no handler of the module catches it.
\<close>

datatype error = ValueError | AssertionError | AttributeError

definition lookup :: "'p heap \<Rightarrow> addr \<Rightarrow> 'p pyobj option" where
  "lookup h a = (if a < length h then Some (h ! a) else None)"

definition alloc :: "'p pyobj \<Rightarrow> 'p heap \<Rightarrow> 'p heap \<times> addr" where
  "alloc ob h = (h @ [ob], length h)"

text \<open>
  A method is a function from the heap to a result and the heap it leaves; the result
  is the raised exception (\<open>Inl\<close>) or the returned value (\<open>Inr\<close>). The heap is
  returned in both cases: an exception does not undo the assignments made before it.
\<close>

type_synonym ('p, 'a) py = "'p heap \<Rightarrow> (error + 'a) \<times> 'p heap"

definition py_return :: "'a \<Rightarrow> ('p, 'a) py" where
  "py_return x h = (Inr x, h)"

definition py_raise :: "error \<Rightarrow> ('p, 'a) py" where
  "py_raise e h = (Inl e, h)"

definition py_read :: "('p heap \<Rightarrow> error + 'a) \<Rightarrow> ('p, 'a) py" where
  "py_read g h = (g h, h)"

definition py_bind :: "('p, 'a) py \<Rightarrow> ('a \<Rightarrow> ('p, 'b) py) \<Rightarrow> ('p, 'b) py" where
  "py_bind m f h = (case m h of (Inl e, h1) \<Rightarrow> (Inl e, h1) | (Inr x, h1) \<Rightarrow> f x h1)"

section \<open>The geometry library\<close>

text \<open>
  \<^verbatim>\<open>polygon.py\<close> is not part of the sources at hand. Its operations are parameters of
  every definition below: the empty polygon \<^verbatim>\<open>SphericalPolygon([])\<close>, \<^verbatim>\<open>union\<close> and
  \<^verbatim>\<open>intersection\<close> (either may raise), \<^verbatim>\<open>area\<close>, the number of \<^verbatim>\<open>points\<close> and
  \<^verbatim>\<open>intersects_poly\<close>. Areas are Python floats; they are only ever compared, and are
  modelled as reals (a NaN area is outside the model).
\<close>

record 'p geometry =
  empty_poly :: 'p
  union_poly :: "'p \<Rightarrow> 'p \<Rightarrow> error + 'p"
  intersection_poly :: "'p \<Rightarrow> 'p \<Rightarrow> error + 'p"
  area_poly :: "'p \<Rightarrow> real"
  points_poly :: "'p \<Rightarrow> nat"
  intersects_poly :: "'p \<Rightarrow> 'p \<Rightarrow> bool"

text \<open>
  Modelled from the spec: \<^verbatim>\<open>copy(value)\<close> for a \<^verbatim>\<open>SphericalPolygon\<close>. What \<^verbatim>\<open>copy\<close> does
  is decided by \<^verbatim>\<open>SphericalPolygon.__copy__\<close> in the absent \<^verbatim>\<open>polygon.py\<close>; the setter's
  comment calls it a deep copy and the spec a defensive copy that never aliases the
  argument. So it is a new object with the same polygon value, and \<^verbatim>\<open>AttributeError\<close>
  when the reference is not to a polygon.
\<close>

definition copy_polygon :: "addr \<Rightarrow> ('p, addr) py" where
  "copy_polygon value h =
     (case lookup h value of
        Some (SphericalPolygon v) \<Rightarrow> (case alloc (SphericalPolygon v) h of (h1, c) \<Rightarrow> (Inr c, h1))
      | _ \<Rightarrow> (Inl AttributeError, h))"

section \<open>SkyLine: attributes\<close>

text \<open>\<^verbatim>\<open>isinstance(value, SphericalPolygon)\<close> and \<^verbatim>\<open>isinstance(v, SkyLineMember)\<close>.\<close>

definition isinstance_SphericalPolygon :: "'p heap \<Rightarrow> addr \<Rightarrow> bool" where
  "isinstance_SphericalPolygon h value =
     (case lookup h value of Some (SphericalPolygon v) \<Rightarrow> True | _ \<Rightarrow> False)"

definition isinstance_SkyLineMember :: "'p heap \<Rightarrow> addr \<Rightarrow> bool" where
  "isinstance_SkyLineMember h v =
     (case lookup h v of Some (SkyLineMember f e w p) \<Rightarrow> True | _ \<Rightarrow> False)"

text \<open>The properties \<^verbatim>\<open>polygon\<close> and \<^verbatim>\<open>members\<close>: \<^verbatim>\<open>return self._polygon\<close>, \<^verbatim>\<open>return self._members\<close>.\<close>

definition polygon_getter :: "'p heap \<Rightarrow> addr \<Rightarrow> error + addr" where
  "polygon_getter h self =
     (case lookup h self of Some (SkyLine (Some p) ms) \<Rightarrow> Inr p | _ \<Rightarrow> Inl AttributeError)"

definition members_getter :: "'p heap \<Rightarrow> addr \<Rightarrow> error + addr list" where
  "members_getter h self =
     (case lookup h self of Some (SkyLine p ms) \<Rightarrow> Inr ms | _ \<Rightarrow> Inl AttributeError)"

text \<open>
  The \<^verbatim>\<open>polygon\<close> setter:
  \<^verbatim>\<open>assert isinstance(value, SphericalPolygon); self._polygon = copy(value)\<close>.
\<close>

definition polygon_setter :: "addr \<Rightarrow> addr \<Rightarrow> ('p, unit) py" where
  "polygon_setter self value h =
     (if \<not> isinstance_SphericalPolygon h value then (Inl AssertionError, h)
      else
        py_bind (copy_polygon value) (\<lambda>c h1.
          case lookup h1 self of
            Some (SkyLine p ms) \<Rightarrow> (Inr (), h1[self := SkyLine (Some c) ms])
          | _ \<Rightarrow> (Inl AttributeError, h1)) h)"

text \<open>
  The \<^verbatim>\<open>members\<close> setter. \<^verbatim>\<open>self._members = []\<close>, then for each \<^verbatim>\<open>v\<close> of \<^verbatim>\<open>values\<close>:
  \<^verbatim>\<open>assert isinstance(v, SkyLineMember)\<close> and \<^verbatim>\<open>if v not in self._members:
  self._members.append(v)\<close>. \<^verbatim>\<open>SkyLineMember\<close> defines no \<^verbatim>\<open>__eq__\<close>, so \<^verbatim>\<open>in\<close> compares
  references. The loop returns the list built so far together with the outcome: a
  failed assertion leaves in \<^verbatim>\<open>self._members\<close> what was appended before it.
\<close>

fun members_setter_loop :: "'p heap \<Rightarrow> addr list \<Rightarrow> addr list \<Rightarrow> (error + unit) \<times> addr list" where
  "members_setter_loop h acc [] = (Inr (), acc)"
| "members_setter_loop h acc (v # values) =
     (if \<not> isinstance_SkyLineMember h v then (Inl AssertionError, acc)
      else members_setter_loop h (if v \<in> set acc then acc else acc @ [v]) values)"

definition members_setter :: "addr \<Rightarrow> addr list \<Rightarrow> ('p, unit) py" where
  "members_setter self values h =
     (case lookup h self of
        Some (SkyLine p ms) \<Rightarrow>
          (case members_setter_loop h [] values of
             (r, ms') \<Rightarrow> (r, h[self := SkyLine p ms']))
      | _ \<Rightarrow> (Inl AttributeError, h))"

text \<open>
  \<^verbatim>\<open>__getattr__\<close> hands every attribute that \<^verbatim>\<open>SkyLine\<close> lacks to \<^verbatim>\<open>self.polygon\<close>:
  \<open>delegate\<close> is the polygon value a library method then works on. A library method
  called with a \<^verbatim>\<open>SkyLine\<close> as its argument reads that argument's polygon data through
  the same delegation.
\<close>

definition delegate :: "'p heap \<Rightarrow> addr \<Rightarrow> error + 'p" where
  "delegate h self =
     (case polygon_getter h self of
        Inl e \<Rightarrow> Inl e
      | Inr p \<Rightarrow> (case lookup h p of Some (SphericalPolygon v) \<Rightarrow> Inr v | _ \<Rightarrow> Inl AttributeError))"

definition delegate2 :: "('p \<Rightarrow> 'p \<Rightarrow> error + 'a) \<Rightarrow> 'p heap \<Rightarrow> addr \<Rightarrow> addr \<Rightarrow> error + 'a" where
  "delegate2 method h self other =
     (case delegate h self of
        Inl e \<Rightarrow> Inl e
      | Inr p \<Rightarrow> (case delegate h other of Inl e \<Rightarrow> Inl e | Inr q \<Rightarrow> method p q))"

text \<open>\<^verbatim>\<open>_rough_id\<close>: the file name of the first member, \<^verbatim>\<open>None\<close> without members.\<close>

definition rough_id :: "'p heap \<Rightarrow> addr \<Rightarrow> error + string option" where
  "rough_id h self =
     (case members_getter h self of
        Inl e \<Rightarrow> Inl e
      | Inr [] \<Rightarrow> Inr None
      | Inr (m # ms) \<Rightarrow>
          (case lookup h m of
             Some (SkyLineMember fname ext wcs poly) \<Rightarrow> Inr (Some fname)
           | _ \<Rightarrow> Inl AttributeError))"

text \<open>\<^verbatim>\<open>m.polygon\<close> for a member \<^verbatim>\<open>m\<close>.\<close>

definition member_polygon :: "'p heap \<Rightarrow> addr \<Rightarrow> error + 'p" where
  "member_polygon h m =
     (case lookup h m of
        Some (SkyLineMember fname ext wcs poly) \<Rightarrow> Inr poly
      | _ \<Rightarrow> Inl AttributeError)"

text \<open>Creating an object: the library's and the classes' constructors allocate.\<close>

definition py_new :: "'p pyobj \<Rightarrow> ('p, addr) py" where
  "py_new ob h = (case alloc ob h of (h1, a) \<Rightarrow> (Inr a, h1))"

section \<open>SkyLine: construction, union and intersection\<close>

text \<open>
  \<^verbatim>\<open>SkyLine.__init__(fname, extname)\<close>. Building the \<^verbatim>\<open>SkyLineMember\<close> of a file reads
  the file and is outside the model: the argument is \<open>None\<close> for \<^verbatim>\<open>fname = None\<close> and
  otherwise the reference to the member that was built. Then \<^verbatim>\<open>self.members\<close> is
  assigned, and \<^verbatim>\<open>self.polygon\<close> according to \<^verbatim>\<open>n = len(self.members)\<close>: the empty
  polygon for 0, a copy of the member's polygon for 1, \<^verbatim>\<open>ValueError\<close> otherwise.
\<close>

definition SkyLine_init :: "'p geometry \<Rightarrow> addr option \<Rightarrow> ('p, addr) py" where
  "SkyLine_init geo fmember =
     py_bind (py_new (SkyLine None [])) (\<lambda>self.
     py_bind (members_setter self (case fmember of None \<Rightarrow> [] | Some m \<Rightarrow> [m])) (\<lambda>_.
     py_bind (py_read (\<lambda>h. members_getter h self)) (\<lambda>ms.
       case ms of
         [] \<Rightarrow>
           py_bind (py_new (SphericalPolygon (empty_poly geo))) (\<lambda>e.
           py_bind (polygon_setter self e) (\<lambda>_. py_return self))
       | [m] \<Rightarrow>
           py_bind (py_read (\<lambda>h. member_polygon h m)) (\<lambda>mp.
           py_bind (py_new (SphericalPolygon mp)) (\<lambda>c.
           py_bind (polygon_setter self c) (\<lambda>_. py_return self)))
       | _ \<Rightarrow> py_raise ValueError)))"

text \<open>
  \<^verbatim>\<open>_find_members(given_members)\<close>: with \<^verbatim>\<open>len(self.points) > 0\<close> the members \<^verbatim>\<open>m\<close> of
  \<^verbatim>\<open>given_members\<close> with \<^verbatim>\<open>self.intersects_poly(m.polygon)\<close>, in their order; the empty
  list otherwise.
\<close>

fun find_members_filter :: "'p geometry \<Rightarrow> 'p heap \<Rightarrow> 'p \<Rightarrow> addr list \<Rightarrow> error + addr list" where
  "find_members_filter geo h sp [] = Inr []"
| "find_members_filter geo h sp (m # given_members) =
     (case member_polygon h m of
        Inl e \<Rightarrow> Inl e
      | Inr mp \<Rightarrow>
          (case find_members_filter geo h sp given_members of
             Inl e \<Rightarrow> Inl e
           | Inr out_mem \<Rightarrow> Inr (if intersects_poly geo sp mp then m # out_mem else out_mem)))"

definition find_members :: "'p geometry \<Rightarrow> 'p heap \<Rightarrow> addr \<Rightarrow> addr list \<Rightarrow> error + addr list" where
  "find_members geo h self given_members =
     (case delegate h self of
        Inl e \<Rightarrow> Inl e
      | Inr sp \<Rightarrow>
          if points_poly geo sp > 0 then find_members_filter geo h sp given_members
          else Inr [])"

text \<open>
  \<^verbatim>\<open>add_image(other)\<close>: \<^verbatim>\<open>newcls = self.__class__(None)\<close>,
  \<^verbatim>\<open>newcls.polygon = self.union(other)\<close>,
  \<^verbatim>\<open>newcls.members = self.members + other.members\<close>, \<^verbatim>\<open>return newcls\<close>.
  The library's \<^verbatim>\<open>union\<close> returns a new polygon object, which the setter then copies.
\<close>

definition add_image :: "'p geometry \<Rightarrow> addr \<Rightarrow> addr \<Rightarrow> ('p, addr) py" where
  "add_image geo self other =
     py_bind (SkyLine_init geo None) (\<lambda>newcls.
     py_bind (py_read (\<lambda>h. delegate2 (union_poly geo) h self other)) (\<lambda>u.
     py_bind (py_new (SphericalPolygon u)) (\<lambda>up.
     py_bind (polygon_setter newcls up) (\<lambda>_.
     py_bind (py_read (\<lambda>h. members_getter h self)) (\<lambda>ms1.
     py_bind (py_read (\<lambda>h. members_getter h other)) (\<lambda>ms2.
     py_bind (members_setter newcls (ms1 @ ms2)) (\<lambda>_.
     py_return newcls)))))))"

text \<open>
  \<^verbatim>\<open>find_intersection(other)\<close>: \<^verbatim>\<open>newcls = self.__class__(None)\<close>,
  \<^verbatim>\<open>newcls.polygon = self.intersection(other)\<close>,
  \<^verbatim>\<open>newcls.members = newcls._find_members(self.members + other.members)\<close>,
  \<^verbatim>\<open>return newcls\<close>.
\<close>

definition find_intersection :: "'p geometry \<Rightarrow> addr \<Rightarrow> addr \<Rightarrow> ('p, addr) py" where
  "find_intersection geo self other =
     py_bind (SkyLine_init geo None) (\<lambda>newcls.
     py_bind (py_read (\<lambda>h. delegate2 (intersection_poly geo) h self other)) (\<lambda>i.
     py_bind (py_new (SphericalPolygon i)) (\<lambda>ip.
     py_bind (polygon_setter newcls ip) (\<lambda>_.
     py_bind (py_read (\<lambda>h. members_getter h self)) (\<lambda>ms1.
     py_bind (py_read (\<lambda>h. members_getter h other)) (\<lambda>ms2.
     py_bind (py_read (\<lambda>h. find_members geo h newcls (ms1 @ ms2))) (\<lambda>found.
     py_bind (members_setter newcls found) (\<lambda>_.
     py_return newcls))))))))"

section \<open>Overlap search\<close>

text \<open>
  The handlers \<^verbatim>\<open>except (ValueError, AssertionError)\<close> catch these two classes only.
\<close>

definition handled :: "error \<Rightarrow> bool" where
  "handled e = (e = ValueError \<or> e = AssertionError)"

text \<open>
  The body of the \<^verbatim>\<open>try\<close> statement of \<^verbatim>\<open>find_max_overlap\<close>, for one candidate:
  \<^verbatim>\<open>overlap_area = self.intersection(next_s).area()\<close>; on a caught exception, with
  \<^verbatim>\<open>SKYLINE_DEBUG\<close> a warning that names both skylines by \<^verbatim>\<open>_rough_id()\<close> and
  \<^verbatim>\<open>overlap_area = 0.0\<close>, without it \<^verbatim>\<open>raise\<close>. \<^verbatim>\<open>SKYLINE_DEBUG\<close> is a module
  variable (set to \<^verbatim>\<open>True\<close> in the source); it is the argument \<open>dbg\<close>.
\<close>

definition overlap_area :: "'p geometry \<Rightarrow> bool \<Rightarrow> 'p heap \<Rightarrow> addr \<Rightarrow> addr \<Rightarrow> error + real" where
  "overlap_area geo dbg h self next_s =
     (case delegate2 (intersection_poly geo) h self next_s of
        Inr p \<Rightarrow> Inr (area_poly geo p)
      | Inl e \<Rightarrow>
          if handled e then
            (if dbg then
               (case rough_id h self of
                  Inl e' \<Rightarrow> Inl e'
                | Inr i1 \<Rightarrow> (case rough_id h next_s of Inl e' \<Rightarrow> Inl e' | Inr i2 \<Rightarrow> Inr 0))
             else Inl e)
          else Inl e)"

text \<open>
  \<^verbatim>\<open>find_max_overlap(skylines)\<close>: the loop over \<^verbatim>\<open>skylines\<close> with the variables
  \<^verbatim>\<open>max_skyline\<close> and \<^verbatim>\<open>max_overlap_area\<close>, started at \<^verbatim>\<open>None\<close> and \<^verbatim>\<open>0.0\<close>.
\<close>

fun find_max_overlap_loop ::
  "'p geometry \<Rightarrow> bool \<Rightarrow> 'p heap \<Rightarrow> addr \<Rightarrow> addr option \<times> real \<Rightarrow> addr list
     \<Rightarrow> error + addr option \<times> real" where
  "find_max_overlap_loop geo dbg h self (max_skyline, max_overlap_area) [] =
     Inr (max_skyline, max_overlap_area)"
| "find_max_overlap_loop geo dbg h self (max_skyline, max_overlap_area) (next_s # skylines) =
     (case overlap_area geo dbg h self next_s of
        Inl e \<Rightarrow> Inl e
      | Inr a \<Rightarrow>
          find_max_overlap_loop geo dbg h self
            (if a > max_overlap_area then (Some next_s, a) else (max_skyline, max_overlap_area))
            skylines)"

definition find_max_overlap ::
  "'p geometry \<Rightarrow> bool \<Rightarrow> 'p heap \<Rightarrow> addr \<Rightarrow> addr list \<Rightarrow> error + addr option \<times> real" where
  "find_max_overlap geo dbg h self skylines =
     find_max_overlap_loop geo dbg h self (None, 0) skylines"

text \<open>
  \<^verbatim>\<open>max_overlap_pair(skylines)\<close>: for \<^verbatim>\<open>i in xrange(len(skylines) - 1)\<close>,
  \<^verbatim>\<open>curr_s = skylines[i]\<close> is compared with \<^verbatim>\<open>skylines[i+1:]\<close>. \<^verbatim>\<open>max_pair\<close> is \<^verbatim>\<open>None\<close> or
  the tuple \<^verbatim>\<open>(curr_s, next_s)\<close>, whose second component is whatever
  \<^verbatim>\<open>find_max_overlap\<close> returned.
\<close>

fun max_overlap_pair_loop ::
  "'p geometry \<Rightarrow> bool \<Rightarrow> 'p heap \<Rightarrow> addr list \<Rightarrow> (addr \<times> addr option) option \<times> real \<Rightarrow> nat list
     \<Rightarrow> error + (addr \<times> addr option) option \<times> real" where
  "max_overlap_pair_loop geo dbg h skylines (max_pair, max_overlap_area) [] =
     Inr (max_pair, max_overlap_area)"
| "max_overlap_pair_loop geo dbg h skylines (max_pair, max_overlap_area) (i # is) =
     (case find_max_overlap geo dbg h (skylines ! i) (drop (i + 1) skylines) of
        Inl e \<Rightarrow> Inl e
      | Inr (next_s, i_area) \<Rightarrow>
          max_overlap_pair_loop geo dbg h skylines
            (if i_area > max_overlap_area then (Some (skylines ! i, next_s), i_area)
             else (max_pair, max_overlap_area))
            is)"

definition max_overlap_pair ::
  "'p geometry \<Rightarrow> bool \<Rightarrow> 'p heap \<Rightarrow> addr list \<Rightarrow> error + (addr \<times> addr option) option" where
  "max_overlap_pair geo dbg h skylines =
     (case max_overlap_pair_loop geo dbg h skylines (None, 0) [0..<length skylines - 1] of
        Inl e \<Rightarrow> Inl e
      | Inr (max_pair, max_overlap_area) \<Rightarrow> Inr max_pair)"

section \<open>The mosaic\<close>

text \<open>
  \<^verbatim>\<open>list.remove(x)\<close> deletes the first element equal to \<^verbatim>\<open>x\<close> and raises
  \<^verbatim>\<open>ValueError\<close> when there is none. \<^verbatim>\<open>SkyLine\<close> defines no \<^verbatim>\<open>__eq__\<close>, so skylines
  are compared as references.
\<close>

definition list_remove :: "addr \<Rightarrow> addr list \<Rightarrow> error + addr list" where
  "list_remove x xs = (if x \<in> set xs then Inr (remove1 x xs) else Inl ValueError)"

text \<open>\<^verbatim>\<open>for r in remaining: excluded.append(r._rough_id())\<close>: the identifiers appended.\<close>

fun rough_ids :: "'p heap \<Rightarrow> addr list \<Rightarrow> error + string option list" where
  "rough_ids h [] = Inr []"
| "rough_ids h (r # remaining) =
     (case rough_id h r of
        Inl e \<Rightarrow> Inl e
      | Inr i \<Rightarrow> (case rough_ids h remaining of Inl e \<Rightarrow> Inl e | Inr ids \<Rightarrow> Inr (i # ids)))"

text \<open>
  The variables of \<^verbatim>\<open>mosaic\<close> during the loop: \<^verbatim>\<open>mosaic\<close>, \<^verbatim>\<open>out_order\<close>, \<^verbatim>\<open>excluded\<close>
  and \<^verbatim>\<open>remaining\<close>. The argument \<^verbatim>\<open>verbose\<close> only selects what is printed and is left
  out.
\<close>

type_synonym mosaic_vars = "addr \<times> string option list \<times> string option list \<times> addr list"

datatype loop_exit = Continue mosaic_vars | Break mosaic_vars

text \<open>
  The \<^verbatim>\<open>finally\<close> clause \<^verbatim>\<open>remaining.remove(next_skyline)\<close>: it runs whatever the
  \<^verbatim>\<open>try\<close> statement did, an exception it raises replaces a pending one, and otherwise
  the pending exception goes on or the loop continues with the shortened list.
\<close>

definition finally_remove ::
  "addr \<Rightarrow> addr list \<Rightarrow> error + (addr list \<Rightarrow> mosaic_vars) \<Rightarrow> error + loop_exit" where
  "finally_remove next_skyline remaining r =
     (case list_remove next_skyline remaining of
        Inl e \<Rightarrow> Inl e
      | Inr remaining' \<Rightarrow> (case r of Inl e \<Rightarrow> Inl e | Inr vars \<Rightarrow> Inr (Continue (vars remaining'))))"

text \<open>
  One pass through the body of \<^verbatim>\<open>while len(remaining) > 0\<close>: \<^verbatim>\<open>find_max_overlap\<close>;
  without an overlapping skyline every remaining identifier is appended to
  \<^verbatim>\<open>excluded\<close> and the loop is left; otherwise \<^verbatim>\<open>mosaic.add_image(next_skyline)\<close> under
  \<^verbatim>\<open>try\<close>, with the \<^verbatim>\<open>except\<close>, \<^verbatim>\<open>else\<close> and \<^verbatim>\<open>finally\<close> clauses.
\<close>

definition loop_body :: "'p geometry \<Rightarrow> bool \<Rightarrow> mosaic_vars \<Rightarrow> ('p, loop_exit) py" where
  "loop_body geo dbg vars =
     (case vars of (mosaic, out_order, excluded, remaining) \<Rightarrow>
        py_bind (py_read (\<lambda>h. find_max_overlap geo dbg h mosaic remaining)) (\<lambda>(next_skyline, i_area).
          case next_skyline of
            None \<Rightarrow>
              py_bind (py_read (\<lambda>h. rough_ids h remaining)) (\<lambda>ids.
                py_return (Break (mosaic, out_order, excluded @ ids, remaining)))
          | Some next_s \<Rightarrow>
              (\<lambda>h. case add_image geo mosaic next_s h of
                 (Inl e, h1) \<Rightarrow>
                   (finally_remove next_s remaining
                      (if handled e then
                         (if dbg then
                            (case rough_id h1 next_s of
                               Inl e' \<Rightarrow> Inl e'
                             | Inr i \<Rightarrow> Inr (\<lambda>r. (mosaic, out_order, excluded @ [i], r)))
                          else Inl e)
                       else Inl e),
                    h1)
               | (Inr new_mos, h1) \<Rightarrow>
                   (finally_remove next_s remaining
                      (case rough_id h1 next_s of
                         Inl e' \<Rightarrow> Inl e'
                       | Inr i \<Rightarrow> Inr (\<lambda>r. (new_mos, out_order @ [i], excluded, r))),
                    h1))))"

function mosaic_while :: "'p geometry \<Rightarrow> bool \<Rightarrow> mosaic_vars \<Rightarrow> ('p, mosaic_vars) py" where
  "mosaic_while geo dbg (mosaic, out_order, excluded, remaining) h =
     (if length remaining > 0 then
        (case loop_body geo dbg (mosaic, out_order, excluded, remaining) h of
           (Inl e, h1) \<Rightarrow> (Inl e, h1)
         | (Inr (Break vars), h1) \<Rightarrow> (Inr vars, h1)
         | (Inr (Continue vars), h1) \<Rightarrow> mosaic_while geo dbg vars h1)
      else (Inr (mosaic, out_order, excluded, remaining), h))"
  by pat_completeness auto
termination
  by (relation "measure (\<lambda>(geo, dbg, (mosaic, out_order, excluded, remaining), h). length remaining)")
    (auto simp: loop_body_def py_bind_def py_read_def py_return_def finally_remove_def
      list_remove_def length_remove1
      split: prod.splits sum.splits option.splits if_splits)

text \<open>
  The number of passes through the loop body that \<open>mosaic_while\<close> makes from the given
  variables: the same recursion, counting.
\<close>

function mosaic_while_passes :: "'p geometry \<Rightarrow> bool \<Rightarrow> mosaic_vars \<Rightarrow> 'p heap \<Rightarrow> nat" where
  "mosaic_while_passes geo dbg (mosaic, out_order, excluded, remaining) h =
     (if length remaining > 0 then
        (case loop_body geo dbg (mosaic, out_order, excluded, remaining) h of
           (Inl e, h1) \<Rightarrow> 1
         | (Inr (Break vars), h1) \<Rightarrow> 1
         | (Inr (Continue vars), h1) \<Rightarrow> 1 + mosaic_while_passes geo dbg vars h1)
      else 0)"
  by pat_completeness auto
termination
  by (relation "measure (\<lambda>(geo, dbg, (mosaic, out_order, excluded, remaining), h). length remaining)")
    (auto simp: loop_body_def py_bind_def py_read_def py_return_def finally_remove_def
      list_remove_def length_remove1
      split: prod.splits sum.splits option.splits if_splits)

text \<open>
  \<^verbatim>\<open>mosaic(skylines)\<close> up to the loop: \<^verbatim>\<open>max_overlap_pair\<close>; without a pair the result
  is already decided (\<open>None\<close> here); with a pair \<^verbatim>\<open>(s1, s2)\<close> the union
  \<^verbatim>\<open>s1.add_image(s2)\<close>, \<^verbatim>\<open>out_order = [s1._rough_id(), s2._rough_id()]\<close> and the removal
  of both from \<^verbatim>\<open>remaining = list(skylines)\<close>. Should \<^verbatim>\<open>s2\<close> be \<^verbatim>\<open>None\<close>, \<^verbatim>\<open>add_image\<close>
  fails on reading its attributes.
\<close>

definition mosaic_seed :: "'p geometry \<Rightarrow> bool \<Rightarrow> addr list \<Rightarrow> ('p, mosaic_vars option) py" where
  "mosaic_seed geo dbg skylines =
     py_bind (py_read (\<lambda>h. max_overlap_pair geo dbg h skylines)) (\<lambda>starting_pair.
       case starting_pair of
         None \<Rightarrow> py_return None
       | Some (s1, None) \<Rightarrow> py_raise AttributeError
       | Some (s1, Some s2) \<Rightarrow>
           py_bind (add_image geo s1 s2) (\<lambda>mosaic.
           py_bind (py_read (\<lambda>h. rough_id h s1)) (\<lambda>i1.
           py_bind (py_read (\<lambda>h. rough_id h s2)) (\<lambda>i2.
           py_bind (py_read (\<lambda>h. list_remove s1 skylines)) (\<lambda>remaining1.
           py_bind (py_read (\<lambda>h. list_remove s2 remaining1)) (\<lambda>remaining.
           py_return (Some (mosaic, [i1, i2], [], remaining))))))))"

text \<open>
  \<^verbatim>\<open>mosaic(skylines)\<close>: the triple \<^verbatim>\<open>(mosaic, out_order, excluded)\<close>, with \<^verbatim>\<open>None\<close> and two
  empty lists when there is no starting pair.
\<close>

definition mosaic ::
  "'p geometry \<Rightarrow> bool \<Rightarrow> addr list
     \<Rightarrow> ('p, addr option \<times> string option list \<times> string option list) py" where
  "mosaic geo dbg skylines =
     py_bind (mosaic_seed geo dbg skylines) (\<lambda>seed.
       case seed of
         None \<Rightarrow> py_return (None, [], [])
       | Some vars \<Rightarrow>
           py_bind (mosaic_while geo dbg vars) (\<lambda>(mosaic, out_order, excluded, remaining).
             py_return (Some mosaic, out_order, excluded)))"

section \<open>Vocabulary of the properties\<close>

text \<open>
  Removing duplicates with respect to an equality \<open>eq\<close>, keeping the first occurrence of
  each element and the order of these first occurrences. With \<open>(=)\<close> on references it
  is what the loop of the \<^verbatim>\<open>members\<close> setter computes.
\<close>

fun dedup_by :: "('a \<Rightarrow> 'a \<Rightarrow> bool) \<Rightarrow> 'a list \<Rightarrow> 'a list" where
  "dedup_by eq [] = []"
| "dedup_by eq (x # xs) = x # filter (\<lambda>y. \<not> eq x y) (dedup_by eq xs)"

text \<open>
  The equality of members that the specification describes: two members are equal when
  file name, extensions and polygon agree, whichever objects they are.
\<close>

definition member_eq :: "'p heap \<Rightarrow> addr \<Rightarrow> addr \<Rightarrow> bool" where
  "member_eq h a b =
     (case (lookup h a, lookup h b) of
        (Some (SkyLineMember f1 e1 w1 p1), Some (SkyLineMember f2 e2 w2 p2)) \<Rightarrow>
          f1 = f2 \<and> e1 = e2 \<and> p1 = p2
      | _ \<Rightarrow> a = b)"

text \<open>
  A well-formed \<^verbatim>\<open>SkyLine\<close>: its \<^verbatim>\<open>_polygon\<close> refers to a polygon and its \<^verbatim>\<open>_members\<close> to
  members. Every \<^verbatim>\<open>SkyLine\<close> that the constructor, \<^verbatim>\<open>add_image\<close> or
  \<^verbatim>\<open>find_intersection\<close> returns is of this kind.
\<close>

definition valid_SkyLine :: "'p heap \<Rightarrow> addr \<Rightarrow> bool" where
  "valid_SkyLine h s =
     (case lookup h s of
        Some (SkyLine (Some p) ms) \<Rightarrow>
          isinstance_SphericalPolygon h p \<and> (\<forall>m \<in> set ms. isinstance_SkyLineMember h m)
      | _ \<Rightarrow> False)"

text \<open>
  A scan that keeps the first strictly largest value above the starting value: the
  pattern of the loops of \<^verbatim>\<open>find_max_overlap\<close> and \<^verbatim>\<open>max_overlap_pair\<close>.
\<close>

fun scan_max :: "'c option \<times> real \<Rightarrow> ('c \<times> real) list \<Rightarrow> 'c option \<times> real" where
  "scan_max acc [] = acc"
| "scan_max (best, m) ((c, a) # xs) = scan_max (if a > m then (Some c, a) else (best, m)) xs"

text \<open>
  The heap after a successful \<^verbatim>\<open>add_image\<close>: the new \<^verbatim>\<open>SkyLine\<close>, the two polygons that
  its constructor made, the union that the library returned and the setter's copy of it.
\<close>

definition union_heap :: "'p geometry \<Rightarrow> 'p \<Rightarrow> addr list \<Rightarrow> 'p heap \<Rightarrow> 'p heap" where
  "union_heap geo u ms h =
     h @ [SkyLine (Some (length h + 4)) ms, SphericalPolygon (empty_poly geo),
          SphericalPolygon (empty_poly geo), SphericalPolygon u, SphericalPolygon u]"

section \<open>A geometry and heaps for the examples\<close>

text \<open>
  Polygons as lists of grid cells: the area is the number of cells, union and
  intersection are those of the cell sets. \<open>bad_i\<close> and \<open>bad_u\<close> list cells that make
  \<^verbatim>\<open>intersection\<close> and \<^verbatim>\<open>union\<close> raise when the second polygon contains one of them.
\<close>

definition grid_geometry :: "nat list \<Rightarrow> nat list \<Rightarrow> nat list geometry" where
  "grid_geometry bad_i bad_u =
     \<lparr> empty_poly = [],
       union_poly = (\<lambda>p q. if \<exists>c \<in> set q. c \<in> set bad_u then Inl AssertionError
                            else Inr (remdups (p @ q))),
       intersection_poly = (\<lambda>p q. if \<exists>c \<in> set q. c \<in> set bad_i then Inl ValueError
                                   else Inr (filter (\<lambda>c. c \<in> set q) p)),
       area_poly = (\<lambda>p. real (length p)),
       points_poly = length,
       intersects_poly = (\<lambda>p q. \<exists>c \<in> set p. c \<in> set q) \<rparr>"

text \<open>
  The three objects of a \<^verbatim>\<open>SkyLine\<close> built from one file, placed at \<open>base\<close>: the member,
  the polygon and the \<^verbatim>\<open>SkyLine\<close> itself (at \<open>base + 2\<close>).
\<close>

definition footprint :: "nat \<Rightarrow> string \<Rightarrow> nat list \<Rightarrow> nat list heap" where
  "footprint base fname cells =
     [SkyLineMember fname [1] 0 cells, SphericalPolygon cells, SkyLine (Some (base + 1)) [base]]"

definition tie_heap :: "nat list heap" where
  "tie_heap =
     footprint 0 ''self.fits'' [0, 1, 2, 3, 4, 5, 6, 7, 8, 9] @
     footprint 3 ''a.fits'' [0, 1, 2, 3, 4] @
     footprint 6 ''b.fits'' [5, 6, 7, 8, 9] @
     footprint 9 ''c.fits'' [0, 1, 2]"

definition growth_heap :: "nat list heap" where
  "growth_heap =
     footprint 0 ''f1.fits'' [0, 1, 2, 3, 4, 5, 6, 7, 8, 9, 10, 11] @
     footprint 3 ''f2.fits'' [2, 3, 4, 5, 6, 7, 8, 9, 10, 11, 12, 13, 14, 15] @
     footprint 6 ''f3.fits'' [12, 13, 14, 15, 20]"

definition disjoint_heap :: "nat list heap" where
  "disjoint_heap =
     footprint 0 ''d1.fits'' [0, 1] @ footprint 3 ''d2.fits'' [2, 3] @ footprint 6 ''d3.fits'' [4, 5]"

definition twin_heap :: "nat list heap" where
  "twin_heap =
     [SkyLineMember ''image1.fits'' [1] 0 [0, 1], SkyLineMember ''image1.fits'' [1] 0 [0, 1],
      SkyLineMember ''image2.fits'' [1] 0 [1, 2], SkyLineMember ''image3.fits'' [1] 0 [7],
      SphericalPolygon [], SkyLine (Some 4) []]"

section \<open>Heap and setter lemmas\<close>

lemma lookup_append_old [simp]: "a < length h \<Longrightarrow> lookup (h @ ext) a = lookup h a"
  by (simp add: lookup_def nth_append)

lemma lookup_append_new [simp]: "lookup (h @ ob # ext) (length h) = Some ob"
  by (simp add: lookup_def)

lemma lookup_Some_less: "lookup h a = Some ob \<Longrightarrow> a < length h"
  by (simp add: lookup_def split: if_splits)

lemma lookup_update: "lookup (h[a := ob]) b = (if b < length h then (if a = b then Some ob else lookup h b) else None)"
  by (simp add: lookup_def)

lemma dedup_by_set: "set (dedup_by (=) xs) = set xs"
  by (induction xs) auto

lemma dedup_by_distinct: "distinct (dedup_by (=) xs)"
  by (induction xs) (auto simp: dedup_by_set)

lemma dedup_by_filter: "dedup_by (=) (filter P xs) = filter P (dedup_by (=) xs)"
  by (induction xs) (auto simp: conj_commute intro: filter_cong)

lemma members_setter_loop_ok:
  "\<forall>v \<in> set values. isinstance_SkyLineMember h v \<Longrightarrow> distinct acc \<Longrightarrow>
   members_setter_loop h acc values = (Inr (), acc @ filter (\<lambda>v. v \<notin> set acc) (dedup_by (=) values))"
proof (induction "values" arbitrary: acc)
  case Nil
  then show ?case by simp
next
  case (Cons v vs)
  show ?case
  proof (cases "v \<in> set acc")
    case True
    with Cons show ?thesis by (auto intro: filter_cong)
  next
    case False
    with Cons show ?thesis by (auto intro: filter_cong)
  qed
qed

lemma members_setter_loop_fail:
  "\<exists>v \<in> set values. \<not> isinstance_SkyLineMember h v \<Longrightarrow>
   fst (members_setter_loop h acc values) = Inl AssertionError"
  by (induction "values" arbitrary: acc) auto


lemma py_bind_return [simp]: "py_bind (py_return x) f h = f x h"
  by (simp add: py_bind_def py_return_def)

lemma py_bind_raise [simp]: "py_bind (py_raise e) f h = (Inl e, h)"
  by (simp add: py_bind_def py_raise_def)

lemma py_bind_read [simp]:
  "py_bind (py_read g) f h = (case g h of Inl e \<Rightarrow> (Inl e, h) | Inr x \<Rightarrow> f x h)"
  by (simp add: py_bind_def py_read_def split: sum.splits)

lemma py_bind_new [simp]: "py_bind (py_new ob) f h = f (length h) (h @ [ob])"
  by (simp add: py_bind_def py_new_def alloc_def)

lemma py_bind_Inr: "m h = (Inr x, h1) \<Longrightarrow> py_bind m f h = f x h1"
  by (simp add: py_bind_def)

lemma py_bind_Inl: "m h = (Inl e, h1) \<Longrightarrow> py_bind m f h = (Inl e, h1)"
  by (simp add: py_bind_def)

lemma polygon_setter_not_polygon:
  "\<not> isinstance_SphericalPolygon h value \<Longrightarrow> polygon_setter self value h = (Inl AssertionError, h)"
  by (simp add: polygon_setter_def)

lemma polygon_setter_ok:
  assumes "lookup h value = Some (SphericalPolygon v)" and "lookup h self = Some (SkyLine p ms)"
  shows "polygon_setter self value h =
           (Inr (), (h @ [SphericalPolygon v])[self := SkyLine (Some (length h)) ms])"
proof -
  from assms(2) have "self < length h" by (rule lookup_Some_less)
  with assms show ?thesis
    by (simp add: polygon_setter_def isinstance_SphericalPolygon_def copy_polygon_def alloc_def
        py_bind_def)
qed

lemma members_setter_ok:
  assumes "lookup h self = Some (SkyLine p ms)" and "\<forall>v \<in> set values. isinstance_SkyLineMember h v"
  shows "members_setter self values h = (Inr (), h[self := SkyLine p (dedup_by (=) values)])"
  using assms members_setter_loop_ok [of "values" h "[]"]
  by (simp add: members_setter_def)

lemma SkyLine_init_None:
  "SkyLine_init geo None h =
     (Inr (length h),
      h @ [SkyLine (Some (length h + 2)) [], SphericalPolygon (empty_poly geo),
           SphericalPolygon (empty_poly geo)])"
  by (simp add: SkyLine_init_def members_setter_def members_getter_def polygon_setter_def
      isinstance_SphericalPolygon_def copy_polygon_def alloc_def lookup_def nth_append
      list_update_append py_bind_def [of "members_setter _ _"] py_bind_def [of "polygon_setter _ _"]
      py_bind_def [of "copy_polygon _"] py_return_def)


lemma delegate_append: "delegate h s = Inr p \<Longrightarrow> delegate (h @ ext) s = Inr p"
  by (auto simp: delegate_def polygon_getter_def lookup_def nth_append
      split: option.splits pyobj.splits if_splits sum.splits)

lemma members_getter_append: "members_getter h s = Inr ms \<Longrightarrow> members_getter (h @ ext) s = Inr ms"
  by (auto simp: members_getter_def lookup_def nth_append split: option.splits pyobj.splits if_splits)

lemma isinstance_SkyLineMember_append:
  "isinstance_SkyLineMember h m \<Longrightarrow> isinstance_SkyLineMember (h @ ext) m"
  by (auto simp: isinstance_SkyLineMember_def lookup_def nth_append split: option.splits pyobj.splits if_splits)

lemma member_polygon_append: "member_polygon h m = Inr p \<Longrightarrow> member_polygon (h @ ext) m = Inr p"
  by (auto simp: member_polygon_def lookup_def nth_append split: option.splits pyobj.splits if_splits)

lemma rough_id_append: "rough_id h s = Inr i \<Longrightarrow> rough_id (h @ ext) s = Inr i"
  by (auto simp: rough_id_def members_getter_def lookup_def nth_append
      split: option.splits pyobj.splits if_splits sum.splits list.splits)

lemma delegate2_append:
  "delegate h s = Inr p \<Longrightarrow> delegate h t = Inr q \<Longrightarrow> delegate2 f (h @ ext) s t = f p q"
  by (simp add: delegate2_def delegate_append)

lemma polygon_setter_new:
  "polygon_setter (length h) (length h + 3) (h @ [SkyLine p ms, a, b, SphericalPolygon u]) =
     (Inr (), h @ [SkyLine (Some (length h + 4)) ms, a, b, SphericalPolygon u, SphericalPolygon u])"
  by (simp add: polygon_setter_def isinstance_SphericalPolygon_def copy_polygon_def alloc_def
      lookup_def nth_append list_update_append py_bind_def [of "copy_polygon _"])

lemma members_setter_new:
  assumes "\<forall>v \<in> set values. isinstance_SkyLineMember h v"
  shows "members_setter (length h) values (h @ SkyLine p ms # ext) =
     (Inr (), h @ SkyLine p (dedup_by (=) values) # ext)"
proof -
  have "\<forall>v \<in> set values. isinstance_SkyLineMember (h @ SkyLine p ms # ext) v"
    using assms by (simp add: isinstance_SkyLineMember_append)
  moreover have "lookup (h @ SkyLine p ms # ext) (length h) = Some (SkyLine p ms)"
    by simp
  ultimately show ?thesis
    using members_setter_ok [of "h @ SkyLine p ms # ext" "length h" p ms "values"]
    by (simp add: list_update_append)
qed



lemma add_image_ok:
  assumes "delegate h self = Inr p" and "delegate h other = Inr q"
    and "members_getter h self = Inr ms1" and "members_getter h other = Inr ms2"
    and "\<forall>m \<in> set (ms1 @ ms2). isinstance_SkyLineMember h m"
    and "union_poly geo p q = Inr u"
  shows "add_image geo self other h =
     (Inr (length h), union_heap geo u (dedup_by (=) (ms1 @ ms2)) h)"
proof -
  let ?e = "SphericalPolygon (empty_poly geo)"
  let ?h1 = "h @ [SkyLine (Some (length h + 2)) [], ?e, ?e]"
  have u: "delegate2 (union_poly geo) ?h1 self other = Inr u"
    using assms by (simp add: delegate2_append)
  let ?h2 = "h @ [SkyLine (Some (length h + 2)) [], ?e, ?e, SphericalPolygon u]"
  let ?h3 = "h @ [SkyLine (Some (length h + 4)) [], ?e, ?e, SphericalPolygon u, SphericalPolygon u]"
  have ps: "polygon_setter (length h) (length h + 3) ?h2 = (Inr (), ?h3)"
    by (rule polygon_setter_new)
  have m1: "members_getter ?h3 self = Inr ms1" and m2: "members_getter ?h3 other = Inr ms2"
    using assms by (simp_all add: members_getter_append)
  have ms: "members_setter (length h) (ms1 @ ms2) ?h3 =
      (Inr (), union_heap geo u (dedup_by (=) (ms1 @ ms2)) h)"
    unfolding union_heap_def using assms(5) by (rule members_setter_new)
  show ?thesis
    unfolding add_image_def
    using u ps m1 m2 ms
    by (simp add: SkyLine_init_None py_bind_def [of "SkyLine_init _ _"]
        py_bind_def [of "polygon_setter _ _"] py_bind_def [of "members_setter _ _"] py_return_def
        eval_nat_numeral)
qed

lemma add_image_union_fails:
  assumes "delegate h self = Inr p" and "delegate h other = Inr q"
    and "union_poly geo p q = Inl e"
  shows "add_image geo self other h =
     (Inl e, h @ [SkyLine (Some (length h + 2)) [], SphericalPolygon (empty_poly geo),
                  SphericalPolygon (empty_poly geo)])"
proof -
  let ?e = "SphericalPolygon (empty_poly geo)"
  let ?h1 = "h @ [SkyLine (Some (length h + 2)) [], ?e, ?e]"
  have u: "delegate2 (union_poly geo) ?h1 self other = Inl e"
    using assms by (simp add: delegate2_append)
  show ?thesis
    unfolding add_image_def using u
    by (simp add: SkyLine_init_None py_bind_def [of "SkyLine_init _ _"] eval_nat_numeral)
qed

section \<open>The overlap scans\<close>

lemma scan_max_cases:
  "((\<forall>i<length xs. snd (xs ! i) \<le> m) \<and> scan_max (b, m) xs = (b, m)) \<or>
   (\<exists>i<length xs. scan_max (b, m) xs = (Some (fst (xs ! i)), snd (xs ! i)) \<and> m < snd (xs ! i) \<and>
      (\<forall>j<i. snd (xs ! j) < snd (xs ! i)) \<and> (\<forall>j<length xs. snd (xs ! j) \<le> snd (xs ! i)))"
proof (induction xs arbitrary: b m)
  case Nil
  then show ?case by simp
next
  case (Cons x xs)
  obtain c a where x: "x = (c, a)" by (cases x)
  show ?case
  proof (cases "a > m")
    case True
    from Cons.IH [where b = "Some c" and m = a] show ?thesis
    proof
      assume IH: "(\<forall>i<length xs. snd (xs ! i) \<le> a) \<and> scan_max (Some c, a) xs = (Some c, a)"
      have "\<forall>j<length (x # xs). snd ((x # xs) ! j) \<le> a"
      proof (intro allI impI)
        fix j assume "j < length (x # xs)"
        with IH x show "snd ((x # xs) ! j) \<le> a" by (cases j) auto
      qed
      with IH True x have "0 < length (x # xs) \<and>
          scan_max (b, m) (x # xs) = (Some (fst ((x # xs) ! 0)), snd ((x # xs) ! 0)) \<and>
          m < snd ((x # xs) ! 0) \<and> (\<forall>j<0. snd ((x # xs) ! j) < snd ((x # xs) ! 0)) \<and>
          (\<forall>j<length (x # xs). snd ((x # xs) ! j) \<le> snd ((x # xs) ! 0))"
        by simp
      then show ?thesis by blast
    next
      assume "\<exists>i<length xs. scan_max (Some c, a) xs = (Some (fst (xs ! i)), snd (xs ! i)) \<and>
          a < snd (xs ! i) \<and> (\<forall>j<i. snd (xs ! j) < snd (xs ! i)) \<and>
          (\<forall>j<length xs. snd (xs ! j) \<le> snd (xs ! i))"
      then obtain i where i: "i < length xs"
        and r: "scan_max (Some c, a) xs = (Some (fst (xs ! i)), snd (xs ! i))"
        and gt: "a < snd (xs ! i)" and before: "\<forall>j<i. snd (xs ! j) < snd (xs ! i)"
        and all: "\<forall>j<length xs. snd (xs ! j) \<le> snd (xs ! i)"
        by blast
      have b': "\<forall>j<Suc i. snd ((x # xs) ! j) < snd ((x # xs) ! Suc i)"
      proof (intro allI impI)
        fix j assume "j < Suc i"
        with before gt x show "snd ((x # xs) ! j) < snd ((x # xs) ! Suc i)" by (cases j) auto
      qed
      have a': "\<forall>j<length (x # xs). snd ((x # xs) ! j) \<le> snd ((x # xs) ! Suc i)"
      proof (intro allI impI)
        fix j assume "j < length (x # xs)"
        with all gt x show "snd ((x # xs) ! j) \<le> snd ((x # xs) ! Suc i)" by (cases j) auto
      qed
      from i r gt True x have "Suc i < length (x # xs) \<and>
          scan_max (b, m) (x # xs) = (Some (fst ((x # xs) ! Suc i)), snd ((x # xs) ! Suc i)) \<and>
          m < snd ((x # xs) ! Suc i)"
        by simp
      with a' b' show ?thesis by blast
    qed
  next
    case False
    from Cons.IH [where b = b and m = m] show ?thesis
    proof
      assume IH: "(\<forall>i<length xs. snd (xs ! i) \<le> m) \<and> scan_max (b, m) xs = (b, m)"
      have "\<forall>j<length (x # xs). snd ((x # xs) ! j) \<le> m"
      proof (intro allI impI)
        fix j assume "j < length (x # xs)"
        with IH False x show "snd ((x # xs) ! j) \<le> m" by (cases j) auto
      qed
      with IH False x show ?thesis by simp
    next
      assume "\<exists>i<length xs. scan_max (b, m) xs = (Some (fst (xs ! i)), snd (xs ! i)) \<and>
          m < snd (xs ! i) \<and> (\<forall>j<i. snd (xs ! j) < snd (xs ! i)) \<and>
          (\<forall>j<length xs. snd (xs ! j) \<le> snd (xs ! i))"
      then obtain i where i: "i < length xs"
        and r: "scan_max (b, m) xs = (Some (fst (xs ! i)), snd (xs ! i))"
        and gt: "m < snd (xs ! i)" and before: "\<forall>j<i. snd (xs ! j) < snd (xs ! i)"
        and all: "\<forall>j<length xs. snd (xs ! j) \<le> snd (xs ! i)"
        by blast
      have b': "\<forall>j<Suc i. snd ((x # xs) ! j) < snd ((x # xs) ! Suc i)"
      proof (intro allI impI)
        fix j assume "j < Suc i"
        with before gt False x show "snd ((x # xs) ! j) < snd ((x # xs) ! Suc i)" by (cases j) auto
      qed
      have a': "\<forall>j<length (x # xs). snd ((x # xs) ! j) \<le> snd ((x # xs) ! Suc i)"
      proof (intro allI impI)
        fix j assume "j < length (x # xs)"
        with all gt False x show "snd ((x # xs) ! j) \<le> snd ((x # xs) ! Suc i)" by (cases j) auto
      qed
      from i r gt False x have "Suc i < length (x # xs) \<and>
          scan_max (b, m) (x # xs) = (Some (fst ((x # xs) ! Suc i)), snd ((x # xs) ! Suc i)) \<and>
          m < snd ((x # xs) ! Suc i)"
        by simp
      with a' b' show ?thesis by blast
    qed
  qed
qed

lemma find_max_overlap_loop_scan:
  "map (overlap_area geo dbg h self) skylines = map Inr areas \<Longrightarrow>
   find_max_overlap_loop geo dbg h self acc skylines = Inr (scan_max acc (zip skylines areas))"
proof (induction skylines arbitrary: acc areas)
  case Nil
  then show ?case by (cases acc) simp
next
  case (Cons s skylines)
  then obtain a as where "areas = a # as" by (cases areas) auto
  with Cons show ?case by (cases acc) auto
qed


lemma find_max_overlap_cases:
  assumes "map (overlap_area geo dbg h self) skylines = map Inr areas"
  shows "((\<forall>i<length skylines. areas ! i \<le> 0) \<and>
            find_max_overlap geo dbg h self skylines = Inr (None, 0)) \<or>
         (\<exists>i<length skylines.
            find_max_overlap geo dbg h self skylines = Inr (Some (skylines ! i), areas ! i) \<and>
            0 < areas ! i \<and> (\<forall>j<i. areas ! j < areas ! i) \<and>
            (\<forall>j<length skylines. areas ! j \<le> areas ! i))"
proof -
  from assms have len: "length areas = length skylines"
    by (metis length_map)
  have r: "find_max_overlap geo dbg h self skylines = Inr (scan_max (None, 0) (zip skylines areas))"
    unfolding find_max_overlap_def using assms by (rule find_max_overlap_loop_scan)
  from scan_max_cases [of "zip skylines areas" 0 None] len r show ?thesis
    by auto
qed

lemma max_overlap_pair_loop_scan:
  assumes "\<forall>i \<in> set is. find_max_overlap geo dbg h (skylines ! i) (drop (i + 1) skylines) = Inr (row i)"
  shows "max_overlap_pair_loop geo dbg h skylines acc is =
           Inr (scan_max acc (map (\<lambda>i. ((skylines ! i, fst (row i)), snd (row i))) is))"
  using assms
proof (induction "is" arbitrary: acc)
  case Nil
  then show ?case by (cases acc) simp
next
  case (Cons i "is")
  then show ?case by (cases acc; cases "row i") auto
qed

lemma row_areas:
  assumes "\<forall>i j. i < j \<and> j < length skylines \<longrightarrow>
             overlap_area geo dbg h (skylines ! i) (skylines ! j) = Inr (A i j)"
  shows "map (overlap_area geo dbg h (skylines ! i)) (drop (Suc i) skylines) =
           map Inr (map (A i) [Suc i..<length skylines])"
proof (rule nth_equalityI)
  show "length (map (overlap_area geo dbg h (skylines ! i)) (drop (Suc i) skylines)) =
        length (map Inr (map (A i) [Suc i..<length skylines]))"
    by simp
next
  fix k assume "k < length (map (overlap_area geo dbg h (skylines ! i)) (drop (Suc i) skylines))"
  then have k: "Suc i + k < length skylines" by simp
  with assms have "overlap_area geo dbg h (skylines ! i) (skylines ! (Suc i + k)) = Inr (A i (Suc i + k))"
    by simp
  with k show "map (overlap_area geo dbg h (skylines ! i)) (drop (Suc i) skylines) ! k =
      map Inr (map (A i) [Suc i..<length skylines]) ! k"
    by simp
qed

lemma nth_row: "i < j \<Longrightarrow> j < n \<Longrightarrow> map f [Suc i..<n] ! (j - Suc i) = f j"
proof -
  assume a: "i < j" "j < n"
  then have "j - Suc i < length [Suc i..<n]" by auto
  then have "map f [Suc i..<n] ! (j - Suc i) = f ([Suc i..<n] ! (j - Suc i))" by (rule nth_map)
  also from a have "[Suc i..<n] ! (j - Suc i) = j" by (simp add: nth_upt)
  finally show ?thesis .
qed

lemma row_cases:
  assumes "\<forall>i j. i < j \<and> j < length skylines \<longrightarrow>
             overlap_area geo dbg h (skylines ! i) (skylines ! j) = Inr (A i j)"
  shows "\<exists>row. find_max_overlap geo dbg h (skylines ! i) (drop (Suc i) skylines) = Inr row \<and>
           (((\<forall>j. i < j \<and> j < length skylines \<longrightarrow> A i j \<le> 0) \<and> row = (None, 0)) \<or>
            (\<exists>j. i < j \<and> j < length skylines \<and> row = (Some (skylines ! j), A i j) \<and> 0 < A i j \<and>
               (\<forall>l. i < l \<and> l < j \<longrightarrow> A i l < A i j) \<and>
               (\<forall>l. i < l \<and> l < length skylines \<longrightarrow> A i l \<le> A i j)))"
proof -
  let ?n = "length skylines"
  let ?c = "drop (Suc i) skylines"
  let ?as = "map (A i) [Suc i..<?n]"
  have idx: "\<And>k. k < length ?c \<Longrightarrow> ?as ! k = A i (Suc i + k) \<and> ?c ! k = skylines ! (Suc i + k)"
    by simp
  from find_max_overlap_cases [OF row_areas [OF assms, of i]]
  show ?thesis
  proof
    assume a: "(\<forall>k<length ?c. ?as ! k \<le> 0) \<and>
        find_max_overlap geo dbg h (skylines ! i) ?c = Inr (None, 0)"
    have "\<forall>j. i < j \<and> j < ?n \<longrightarrow> A i j \<le> 0"
    proof (intro allI impI)
      fix j assume j: "i < j \<and> j < ?n"
      then have "j - Suc i < length ?c" by (simp, arith)
      with a have "?as ! (j - Suc i) \<le> 0" by blast
      with j show "A i j \<le> 0" by (simp add: nth_row)
    qed
    with a show ?thesis by blast
  next
    assume "\<exists>k<length ?c.
        find_max_overlap geo dbg h (skylines ! i) ?c = Inr (Some (?c ! k), ?as ! k) \<and>
        0 < ?as ! k \<and> (\<forall>j<k. ?as ! j < ?as ! k) \<and> (\<forall>j<length ?c. ?as ! j \<le> ?as ! k)"
    then obtain k where k: "k < length ?c"
      and r: "find_max_overlap geo dbg h (skylines ! i) ?c = Inr (Some (?c ! k), ?as ! k)"
      and pos: "0 < ?as ! k" and before: "\<forall>j<k. ?as ! j < ?as ! k"
      and all: "\<forall>j<length ?c. ?as ! j \<le> ?as ! k"
      by blast
    let ?j = "Suc i + k"
    from k have j: "i < ?j \<and> ?j < ?n" by simp
    from k have ak: "?as ! k = A i ?j" and ck: "?c ! k = skylines ! ?j" by simp_all
    have b': "\<forall>l. i < l \<and> l < ?j \<longrightarrow> A i l < A i ?j"
    proof (intro allI impI)
      fix l assume l: "i < l \<and> l < ?j"
      then have lk: "l - Suc i < k" by arith
      with before have "?as ! (l - Suc i) < ?as ! k" by blast
      moreover from l j have "?as ! (l - Suc i) = A i l" by (simp add: nth_row)
      ultimately show "A i l < A i ?j" using ak by simp
    qed
    have a': "\<forall>l. i < l \<and> l < ?n \<longrightarrow> A i l \<le> A i ?j"
    proof (intro allI impI)
      fix l assume l: "i < l \<and> l < ?n"
      then have lk: "l - Suc i < length ?c" by (simp, arith)
      with all have "?as ! (l - Suc i) \<le> ?as ! k" by blast
      moreover from l have "?as ! (l - Suc i) = A i l" by (simp add: nth_row)
      ultimately show "A i l \<le> A i ?j" using ak by simp
    qed
    from pos ak have "0 < A i ?j" by simp
    with r ak ck j a' b' have "find_max_overlap geo dbg h (skylines ! i) ?c = Inr (Some (skylines ! ?j), A i ?j) \<and>
        (i < ?j \<and> ?j < ?n \<and> (Some (skylines ! ?j), A i ?j) = (Some (skylines ! ?j), A i ?j) \<and> 0 < A i ?j \<and>
         (\<forall>l. i < l \<and> l < ?j \<longrightarrow> A i l < A i ?j) \<and>
         (\<forall>l. i < l \<and> l < ?n \<longrightarrow> A i l \<le> A i ?j))"
      by simp
    then show ?thesis by blast
  qed
qed


lemma max_overlap_pair_cases:
  assumes A: "\<forall>i j. i < j \<and> j < length skylines \<longrightarrow>
             overlap_area geo dbg h (skylines ! i) (skylines ! j) = Inr (A i j)"
  shows "((\<forall>i j. i < j \<and> j < length skylines \<longrightarrow> A i j \<le> 0) \<and>
            max_overlap_pair geo dbg h skylines = Inr None) \<or>
         (\<exists>i j. i < j \<and> j < length skylines \<and>
            max_overlap_pair geo dbg h skylines = Inr (Some (skylines ! i, Some (skylines ! j))) \<and>
            0 < A i j \<and>
            (\<forall>k l. k < l \<and> l < length skylines \<longrightarrow> A k l \<le> A i j) \<and>
            (\<forall>k l. k < l \<and> l < length skylines \<and> (k < i \<or> k = i \<and> l < j) \<longrightarrow> A k l < A i j))"
proof -
  let ?n = "length skylines"
  from row_cases [OF A] have "\<forall>i. \<exists>row.
      find_max_overlap geo dbg h (skylines ! i) (drop (Suc i) skylines) = Inr row \<and>
      (((\<forall>j. i < j \<and> j < ?n \<longrightarrow> A i j \<le> 0) \<and> row = (None, 0)) \<or>
       (\<exists>j. i < j \<and> j < ?n \<and> row = (Some (skylines ! j), A i j) \<and> 0 < A i j \<and>
          (\<forall>l. i < l \<and> l < j \<longrightarrow> A i l < A i j) \<and>
          (\<forall>l. i < l \<and> l < ?n \<longrightarrow> A i l \<le> A i j)))"
    by blast
  then obtain row where row: "\<And>i.
      find_max_overlap geo dbg h (skylines ! i) (drop (Suc i) skylines) = Inr (row i) \<and>
      (((\<forall>j. i < j \<and> j < ?n \<longrightarrow> A i j \<le> 0) \<and> row i = (None, 0)) \<or>
       (\<exists>j. i < j \<and> j < ?n \<and> row i = (Some (skylines ! j), A i j) \<and> 0 < A i j \<and>
          (\<forall>l. i < l \<and> l < j \<longrightarrow> A i l < A i j) \<and>
          (\<forall>l. i < l \<and> l < ?n \<longrightarrow> A i l \<le> A i j)))"
    by metis
  have F1: "A k l \<le> snd (row k)" if "k < l" "l < ?n" for k l
    using row [of k] that by auto
  have F2: "\<exists>j. k < j \<and> j < ?n \<and> row k = (Some (skylines ! j), A k j) \<and>
      (\<forall>l. k < l \<and> l < j \<longrightarrow> A k l < A k j)" if "0 < snd (row k)" for k
    using row [of k] that by auto
  let ?rows = "map (\<lambda>i. ((skylines ! i, fst (row i)), snd (row i))) [0..<?n - 1]"
  have loop: "max_overlap_pair_loop geo dbg h skylines (None, 0) [0..<?n - 1] =
      Inr (scan_max (None, 0) ?rows)"
    by (rule max_overlap_pair_loop_scan) (simp add: row)
  have res: "max_overlap_pair geo dbg h skylines = Inr (fst (scan_max (None, 0) ?rows))"
    unfolding max_overlap_pair_def loop by (simp split: prod.splits)
  have nth_rows: "?rows ! i = ((skylines ! i, fst (row i)), snd (row i))" if "i < ?n - 1" for i
    using that by simp
  from scan_max_cases [of ?rows 0 None] show ?thesis
  proof
    assume c1: "(\<forall>i<length ?rows. snd (?rows ! i) \<le> 0) \<and> scan_max (None, 0) ?rows = (None, 0)"
    have "\<forall>i j. i < j \<and> j < ?n \<longrightarrow> A i j \<le> 0"
    proof (intro allI impI)
      fix i j assume ij: "i < j \<and> j < ?n"
      then have i: "i < ?n - 1" by arith
      with c1 have "snd (?rows ! i) \<le> 0" by simp
      with i have "snd (row i) \<le> 0" by simp
      with F1 [of i j] ij show "A i j \<le> 0" by simp
    qed
    with c1 res show ?thesis by simp
  next
    assume "\<exists>i<length ?rows. scan_max (None, 0) ?rows = (Some (fst (?rows ! i)), snd (?rows ! i)) \<and>
        0 < snd (?rows ! i) \<and> (\<forall>j<i. snd (?rows ! j) < snd (?rows ! i)) \<and>
        (\<forall>j<length ?rows. snd (?rows ! j) \<le> snd (?rows ! i))"
    then obtain i where i: "i < ?n - 1"
      and r: "scan_max (None, 0) ?rows = (Some (skylines ! i, fst (row i)), snd (row i))"
      and pos: "0 < snd (row i)"
      and before: "\<forall>k<i. snd (row k) < snd (row i)"
      and all: "\<forall>k<?n - 1. snd (row k) \<le> snd (row i)"
      by auto
    from F2 [OF pos] obtain j where j: "i < j" "j < ?n"
      and rowi: "row i = (Some (skylines ! j), A i j)"
      and first: "\<forall>l. i < l \<and> l < j \<longrightarrow> A i l < A i j"
      by blast
    from rowi pos have Apos: "0 < A i j" by simp
    from res r rowi have result:
      "max_overlap_pair geo dbg h skylines = Inr (Some (skylines ! i, Some (skylines ! j)))"
      by simp
    have gmax: "\<forall>k l. k < l \<and> l < ?n \<longrightarrow> A k l \<le> A i j"
    proof (intro allI impI)
      fix k l assume kl: "k < l \<and> l < ?n"
      then have "k < ?n - 1" by arith
      with all have "snd (row k) \<le> snd (row i)" by blast
      with F1 [of k l] kl rowi show "A k l \<le> A i j" by simp
    qed
    have gfirst: "\<forall>k l. k < l \<and> l < ?n \<and> (k < i \<or> k = i \<and> l < j) \<longrightarrow> A k l < A i j"
    proof (intro allI impI)
      fix k l assume kl: "k < l \<and> l < ?n \<and> (k < i \<or> k = i \<and> l < j)"
      show "A k l < A i j"
      proof (cases "k < i")
        case True
        with before have "snd (row k) < snd (row i)" by blast
        with F1 [of k l] kl rowi show ?thesis by simp
      next
        case False
        with kl have "k = i" "i < l" "l < j" by auto
        with first show ?thesis by blast
      qed
    qed
    from j result Apos gmax gfirst show ?thesis by blast
  qed
qed

section \<open>Claims\<close>

text \<open>
  C4. \<^verbatim>\<open>find_max_overlap\<close> scans the candidates in order. Let \<open>areas\<close> be the overlap
  areas that the scan obtains (the area of the intersection, or \<^verbatim>\<open>0.0\<close> for a candidate
  whose intersection failed and was skipped). When no candidate has a positive area the
  result is \<^verbatim>\<open>(None, 0.0)\<close>. Otherwise the result is a candidate together with its area,
  that area is positive, strictly greater than the area of every earlier candidate and
  not less than the area of any candidate: the first candidate that reaches the maximum.
  The witness is the tie of the specification, areas \<open>[5, 5, 3]\<close>: the first candidate
  is returned.
\<close>

theorem find_max_overlap_first_maximum:
  assumes "map (overlap_area geo dbg h self) skylines = map Inr areas"
  shows "((\<forall>i<length skylines. areas ! i \<le> 0) \<longrightarrow>
            find_max_overlap geo dbg h self skylines = Inr (None, 0)) \<and>
         ((\<exists>i<length skylines. 0 < areas ! i) \<longrightarrow>
            (\<exists>i<length skylines.
               find_max_overlap geo dbg h self skylines = Inr (Some (skylines ! i), areas ! i) \<and>
               0 < areas ! i \<and> (\<forall>j<i. areas ! j < areas ! i) \<and>
               (\<forall>j<length skylines. areas ! j \<le> areas ! i)))"
  using find_max_overlap_cases [OF assms] by (auto simp: not_le [symmetric])

theorem find_max_overlap_first_maximum_witness:
  "map (overlap_area (grid_geometry [] []) True tie_heap 2) [5, 8, 11] = map Inr [5, 5, 3] \<and>
   find_max_overlap (grid_geometry [] []) True tie_heap 2 [5, 8, 11] = Inr (Some 5, 5)"
proof -
  have h: "map (overlap_area (grid_geometry [] []) True tie_heap 2) [5, 8, 11] = map Inr [5, 5, 3]"
    by (simp add: overlap_area_def delegate2_def delegate_def polygon_getter_def lookup_def
        tie_heap_def footprint_def grid_geometry_def)
  have "\<exists>i<length [5, 8, 11::nat]. 0 < [5, 5, 3::real] ! i"
    by (rule exI [of _ 0]) simp
  with find_max_overlap_first_maximum [OF h]
  have "\<exists>i<length [5, 8, 11::nat].
      find_max_overlap (grid_geometry [] []) True tie_heap 2 [5, 8, 11] =
        Inr (Some ([5, 8, 11] ! i), [5, 5, 3] ! i) \<and>
      0 < [5, 5, 3::real] ! i \<and> (\<forall>j<i. [5, 5, 3::real] ! j < [5, 5, 3] ! i) \<and>
      (\<forall>j<length [5, 8, 11::nat]. [5, 5, 3::real] ! j \<le> [5, 5, 3] ! i)"
    by blast
  then obtain i where i: "i < length [5, 8, 11::nat]"
    and r: "find_max_overlap (grid_geometry [] []) True tie_heap 2 [5, 8, 11] =
              Inr (Some ([5, 8, 11] ! i), [5, 5, 3] ! i)"
    and first: "\<forall>j<i. [5, 5, 3::real] ! j < [5, 5, 3] ! i"
    by blast
  have "i = 0"
  proof (rule ccontr)
    assume "i \<noteq> 0"
    then have "0 < i" by simp
    with first have "[5, 5, 3::real] ! 0 < [5, 5, 3] ! i" by blast
    moreover from i \<open>i \<noteq> 0\<close> have "i = 1 \<or> i = 2" by (simp, arith)
    ultimately show False by auto
  qed
  with r h show ?thesis by simp
qed

text \<open>
  C5. \<^verbatim>\<open>max_overlap_pair\<close> compares \<^verbatim>\<open>skylines[i]\<close> with \<^verbatim>\<open>skylines[i+1:]\<close> for every
  \<open>i\<close> up to \<^verbatim>\<open>len(skylines) - 2\<close> (the definition of the loop). Let \<open>A i j\<close> be the
  overlap area obtained for the pair \<open>i < j\<close>. When no pair has a positive area the
  result is \<^verbatim>\<open>None\<close>. Otherwise it is a pair \<^verbatim>\<open>(skylines[i], skylines[j])\<close> with \<open>i < j\<close>
  whose area is positive and the largest of all pairs; among pairs of that area it is
  the first in the order of the scan. The witness has the three footprints of the
  specification's growth scenario (areas 10, 4 and 0) and three disjoint ones.
\<close>

theorem max_overlap_pair_global_maximum:
  assumes "\<forall>i j. i < j \<and> j < length skylines \<longrightarrow>
             overlap_area geo dbg h (skylines ! i) (skylines ! j) = Inr (A i j)"
  shows "((\<forall>i j. i < j \<and> j < length skylines \<longrightarrow> A i j \<le> 0) \<longrightarrow>
            max_overlap_pair geo dbg h skylines = Inr None) \<and>
         ((\<exists>i j. i < j \<and> j < length skylines \<and> 0 < A i j) \<longrightarrow>
            (\<exists>i j. i < j \<and> j < length skylines \<and>
               max_overlap_pair geo dbg h skylines = Inr (Some (skylines ! i, Some (skylines ! j))) \<and>
               0 < A i j \<and>
               (\<forall>k l. k < l \<and> l < length skylines \<longrightarrow> A k l \<le> A i j) \<and>
               (\<forall>k l. k < l \<and> l < length skylines \<and> (k < i \<or> k = i \<and> l < j) \<longrightarrow> A k l < A i j)))"
  using max_overlap_pair_cases [OF assms] by (auto simp: not_le [symmetric])

theorem max_overlap_pair_global_maximum_witness:
  "overlap_area (grid_geometry [] []) True growth_heap 2 5 = Inr 10 \<and>
   overlap_area (grid_geometry [] []) True growth_heap 2 8 = Inr 0 \<and>
   overlap_area (grid_geometry [] []) True growth_heap 5 8 = Inr 4 \<and>
   max_overlap_pair (grid_geometry [] []) True growth_heap [2, 5, 8] = Inr (Some (2, Some 5)) \<and>
   overlap_area (grid_geometry [] []) True disjoint_heap 2 5 = Inr 0 \<and>
   overlap_area (grid_geometry [] []) True disjoint_heap 2 8 = Inr 0 \<and>
   overlap_area (grid_geometry [] []) True disjoint_heap 5 8 = Inr 0 \<and>
   max_overlap_pair (grid_geometry [] []) True disjoint_heap [2, 5, 8] = Inr None"
proof -
  let ?A = "\<lambda>i j::nat. if i = 0 \<and> j = 1 then 10 else if i = 1 \<and> j = 2 then 4 else (0::real)"
  have g01: "overlap_area (grid_geometry [] []) True growth_heap 2 5 = Inr 10"
    and g02: "overlap_area (grid_geometry [] []) True growth_heap 2 8 = Inr 0"
    and g12: "overlap_area (grid_geometry [] []) True growth_heap 5 8 = Inr 4"
    by (simp_all add: overlap_area_def delegate2_def delegate_def polygon_getter_def lookup_def
        growth_heap_def footprint_def grid_geometry_def)
  have hg: "\<forall>i j. i < j \<and> j < length [2, 5, 8::nat] \<longrightarrow>
      overlap_area (grid_geometry [] []) True growth_heap ([2, 5, 8] ! i) ([2, 5, 8] ! j) = Inr (?A i j)"
  proof (intro allI impI)
    fix i j :: nat assume "i < j \<and> j < length [2, 5, 8::nat]"
    then have "i = 0 \<and> j = 1 \<or> i = 0 \<and> j = 2 \<or> i = 1 \<and> j = 2" by (simp, arith)
    with g01 g02 g12
    show "overlap_area (grid_geometry [] []) True growth_heap ([2, 5, 8] ! i) ([2, 5, 8] ! j) = Inr (?A i j)"
      by auto
  qed
  have d01: "overlap_area (grid_geometry [] []) True disjoint_heap 2 5 = Inr 0"
    and d02: "overlap_area (grid_geometry [] []) True disjoint_heap 2 8 = Inr 0"
    and d12: "overlap_area (grid_geometry [] []) True disjoint_heap 5 8 = Inr 0"
    by (simp_all add: overlap_area_def delegate2_def delegate_def polygon_getter_def lookup_def
        disjoint_heap_def footprint_def grid_geometry_def)
  have hd: "\<forall>i j. i < j \<and> j < length [2, 5, 8::nat] \<longrightarrow>
      overlap_area (grid_geometry [] []) True disjoint_heap ([2, 5, 8] ! i) ([2, 5, 8] ! j) =
        Inr ((\<lambda>i j. 0) i j)"
  proof (intro allI impI)
    fix i j :: nat assume "i < j \<and> j < length [2, 5, 8::nat]"
    then have "i = 0 \<and> j = 1 \<or> i = 0 \<and> j = 2 \<or> i = 1 \<and> j = 2" by (simp, arith)
    with d01 d02 d12
    show "overlap_area (grid_geometry [] []) True disjoint_heap ([2, 5, 8] ! i) ([2, 5, 8] ! j) =
        Inr ((\<lambda>i j. 0) i j)"
      by auto
  qed
  have none: "max_overlap_pair (grid_geometry [] []) True disjoint_heap [2, 5, 8] = Inr None"
    using max_overlap_pair_global_maximum [OF hd] by simp
  have "\<exists>i j. i < j \<and> j < length [2, 5, 8::nat] \<and> 0 < ?A i j"
    by (intro exI [of _ 0] exI [of _ 1]) simp
  with max_overlap_pair_global_maximum [OF hg]
  obtain i j where ij: "i < j" "j < length [2, 5, 8::nat]"
    and r: "max_overlap_pair (grid_geometry [] []) True growth_heap [2, 5, 8] =
        Inr (Some ([2, 5, 8] ! i, Some ([2, 5, 8] ! j)))"
    and mx: "\<forall>k l. k < l \<and> l < length [2, 5, 8::nat] \<longrightarrow> ?A k l \<le> ?A i j"
    by blast
  from mx [rule_format, of 0 1] have "10 \<le> ?A i j" by simp
  moreover from ij have "i = 0 \<and> j = 1 \<or> i = 0 \<and> j = 2 \<or> i = 1 \<and> j = 2" by (simp, arith)
  ultimately have "i = 0 \<and> j = 1" by auto
  with r have "max_overlap_pair (grid_geometry [] []) True growth_heap [2, 5, 8] = Inr (Some (2, Some 5))"
    by simp
  with g01 g02 g12 d01 d02 d12 none show ?thesis by blast
qed

text \<open>
  C8, as the code has it. The \<^verbatim>\<open>members\<close> setter of a \<^verbatim>\<open>SkyLine\<close> stores the given
  references without repetitions of the same object, first occurrences in their order,
  when all of them refer to members; it raises \<^verbatim>\<open>AssertionError\<close> when one of them does
  not. Two different member objects are both kept even when file name, extensions and
  polygon agree: the counterexample below stores \<open>[0, 1]\<close> where equality by value would
  store \<open>[0]\<close>.
\<close>

theorem members_setter_dedup_by_reference:
  assumes "lookup h self = Some (SkyLine p ms)"
  shows "((\<forall>v \<in> set values. isinstance_SkyLineMember h v) \<longrightarrow>
            members_setter self values h = (Inr (), h[self := SkyLine p (dedup_by (=) values)])) \<and>
         ((\<exists>v \<in> set values. \<not> isinstance_SkyLineMember h v) \<longrightarrow>
            fst (members_setter self values h) = Inl AssertionError)"
proof (intro conjI impI)
  assume "\<forall>v \<in> set values. isinstance_SkyLineMember h v"
  with assms show "members_setter self values h = (Inr (), h[self := SkyLine p (dedup_by (=) values)])"
    by (rule members_setter_ok)
next
  assume "\<exists>v \<in> set values. \<not> isinstance_SkyLineMember h v"
  then have "fst (members_setter_loop h [] values) = Inl AssertionError"
    by (rule members_setter_loop_fail)
  with assms show "fst (members_setter self values h) = Inl AssertionError"
    by (cases "members_setter_loop h [] values") (simp add: members_setter_def)
qed

theorem members_setter_dedup_by_reference_witness:
  "lookup twin_heap 5 = Some (SkyLine (Some 4) []) \<and>
   list_all (isinstance_SkyLineMember twin_heap) [0, 2, 0, 3] \<and>
   members_setter 5 [0, 2, 0, 3] twin_heap = (Inr (), twin_heap[5 := SkyLine (Some 4) [0, 2, 3]]) \<and>
   \<not> isinstance_SkyLineMember twin_heap 4 \<and>
   fst (members_setter 5 [0, 4] twin_heap) = Inl AssertionError"
proof -
  have l: "lookup twin_heap 5 = Some (SkyLine (Some 4) [])"
    by (simp add: lookup_def twin_heap_def)
  have a: "\<forall>v \<in> set [0, 2, 0, 3]. isinstance_SkyLineMember twin_heap v"
    by (simp add: isinstance_SkyLineMember_def lookup_def twin_heap_def)
  have b: "\<exists>v \<in> set [0, 4]. \<not> isinstance_SkyLineMember twin_heap v"
    by (simp add: isinstance_SkyLineMember_def lookup_def twin_heap_def)
  from members_setter_dedup_by_reference [OF l, of "[0, 2, 0, 3]"] a
  have "members_setter 5 [0, 2, 0, 3] twin_heap = (Inr (), twin_heap[5 := SkyLine (Some 4) [0, 2, 3]])"
    by simp
  moreover from members_setter_dedup_by_reference [OF l, of "[0, 4]"] b
  have "fst (members_setter 5 [0, 4] twin_heap) = Inl AssertionError"
    by blast
  moreover have "list_all (isinstance_SkyLineMember twin_heap) [0, 2, 0, 3]"
    using a by simp
  moreover have "\<not> isinstance_SkyLineMember twin_heap 4"
    by (simp add: isinstance_SkyLineMember_def lookup_def twin_heap_def)
  ultimately show ?thesis using l by blast
qed

theorem members_setter_value_equality_counterexample:
  "member_eq twin_heap 0 1 \<and>
   members_getter (snd (members_setter 5 [0, 1] twin_heap)) 5 = Inr [0, 1] \<and>
   dedup_by (member_eq twin_heap) [0, 1] = [0]"
  by (simp add: member_eq_def members_setter_def members_getter_def isinstance_SkyLineMember_def
      lookup_def twin_heap_def)

text \<open>
  C9. The \<^verbatim>\<open>polygon\<close> setter of a \<^verbatim>\<open>SkyLine\<close>. A value that is not a
  \<^verbatim>\<open>SphericalPolygon\<close> raises \<^verbatim>\<open>AssertionError\<close> and leaves the heap as it was. A polygon
  is copied: afterwards \<^verbatim>\<open>_polygon\<close> is a reference that was not in use before the call,
  the polygon behind it has the value of the argument, and it keeps that value whatever
  is later written into the argument object.
\<close>

theorem polygon_setter_defensive_copy:
  assumes "lookup h self = Some (SkyLine p ms)"
  shows "(\<not> isinstance_SphericalPolygon h value \<longrightarrow>
            polygon_setter self value h = (Inl AssertionError, h)) \<and>
         (\<forall>v. lookup h value = Some (SphericalPolygon v) \<longrightarrow>
            (\<exists>h'. polygon_setter self value h = (Inr (), h') \<and>
               polygon_getter h' self = Inr (length h) \<and>
               lookup h (length h) = None \<and>
               delegate h' self = Inr v \<and>
               (\<forall>w. delegate (h'[value := SphericalPolygon w]) self = Inr v)))"
proof (intro conjI impI allI)
  assume "\<not> isinstance_SphericalPolygon h value"
  then show "polygon_setter self value h = (Inl AssertionError, h)"
    by (rule polygon_setter_not_polygon)
next
  fix v assume v: "lookup h value = Some (SphericalPolygon v)"
  let ?h' = "(h @ [SphericalPolygon v])[self := SkyLine (Some (length h)) ms]"
  from assms have self: "self < length h" by (rule lookup_Some_less)
  from v have val: "value < length h" by (rule lookup_Some_less)
  from assms v have ne: "self \<noteq> value" by auto
  have "polygon_setter self value h = (Inr (), ?h')"
    using v assms by (rule polygon_setter_ok)
  moreover have "polygon_getter ?h' self = Inr (length h)"
    using self by (simp add: polygon_getter_def lookup_def)
  moreover have "lookup h (length h) = None"
    by (simp add: lookup_def)
  moreover have "delegate (?h'[value := SphericalPolygon w]) self = Inr v" for w
    using self val ne by (simp add: delegate_def polygon_getter_def lookup_def nth_append)
  moreover have "delegate ?h' self = Inr v"
    using self by (simp add: delegate_def polygon_getter_def lookup_def nth_append)
  ultimately show "\<exists>h'. polygon_setter self value h = (Inr (), h') \<and>
      polygon_getter h' self = Inr (length h) \<and> lookup h (length h) = None \<and>
      delegate h' self = Inr v \<and>
      (\<forall>w. delegate (h'[value := SphericalPolygon w]) self = Inr v)"
    by blast
qed

theorem polygon_setter_defensive_copy_witness:
  "lookup twin_heap 5 = Some (SkyLine (Some 4) []) \<and>
   \<not> isinstance_SphericalPolygon twin_heap 0 \<and>
   polygon_setter 5 0 twin_heap = (Inl AssertionError, twin_heap) \<and>
   lookup twin_heap 4 = Some (SphericalPolygon []) \<and>
   (\<exists>h'. polygon_setter 5 4 twin_heap = (Inr (), h') \<and> polygon_getter h' 5 = Inr 6 \<and>
      delegate h' 5 = Inr [] \<and> delegate (h'[4 := SphericalPolygon [9]]) 5 = Inr [])"
proof -
  have l: "lookup twin_heap 5 = Some (SkyLine (Some 4) [])"
    and n: "\<not> isinstance_SphericalPolygon twin_heap 0"
    and v: "lookup twin_heap 4 = Some (SphericalPolygon [])"
    and len: "length twin_heap = 6"
    by (simp_all add: lookup_def isinstance_SphericalPolygon_def twin_heap_def)
  from polygon_setter_defensive_copy [OF l, of 0] n
  have "polygon_setter 5 0 twin_heap = (Inl AssertionError, twin_heap)"
    by blast
  moreover from polygon_setter_defensive_copy [OF l, of 4] v len
  have "\<exists>h'. polygon_setter 5 4 twin_heap = (Inr (), h') \<and> polygon_getter h' 5 = Inr 6 \<and>
      delegate h' 5 = Inr [] \<and> delegate (h'[4 := SphericalPolygon [9]]) 5 = Inr []"
    by force
  ultimately show ?thesis using l n v by blast
qed

end
